theory Spec2Isabelle
  imports Main
begin

section \<open>Data model (app/models.py and the fields app/boxes.py reads)\<close>

text \<open>
  The activity processing engine of the microblog works on two object stores, the inbox
  (remote activities and objects) and the outbox (locally authored ones), and on the
  tables of actors, followers, followings, notifications, poll answers and outgoing
  deliveries. A database session is modelled as a record of these tables, each a list of
  rows in insertion order; every function of app/boxes.py takes the session and returns
  the updated one. An exception is a value of type \<open>error\<close>.
\<close>

datatype error =
    ValueError string
  | AttributeError
  | IndexError
  | RecursionError
  | ObjectNotFoundError
  | ObjectIsGoneError
  | NotAnObjectError
  | ObjectUnavailableError
  | HTTPStatusError nat
  | HTTPException nat

datatype visibility = PUBLIC | UNLISTED | FOLLOWERS_ONLY | DIRECT

record tag =
  tag_name :: "string option"
  tag_href :: "string option"

record poll_item =
  pi_name :: string
  pi_total_items :: int

text \<open>
  An ActivityPub document (\<open>ap.RawObject\<close>, a JSON dictionary). The fields are the
  keys that app/boxes.py reads, directly or through the properties of
  \<open>app.ap_object.Object\<close>: a missing key is \<open>None\<close>.
\<close>

record raw_object =
  ro_id :: "string option"
  ro_type :: string
  ro_actor :: "string option"
  ro_object_id :: "string option"
  ro_target :: "string option"
  ro_context :: "string option"
  ro_in_reply_to :: "string option"
  ro_content :: "string option"
  ro_name :: "string option"
  ro_published :: "int option"
  ro_tag :: "tag list"
  ro_quote_url :: "string option"
  ro_has_ld_signature :: bool
  ro_visibility :: visibility
  ro_addressing :: "string list"
  ro_one_of :: "poll_item list option"
  ro_any_of :: "poll_item list option"
  ro_voters_count :: "int option"
  ro_end_time :: "int option"
  ro_updated :: "int option"

record actor_doc =
  ad_id :: string
  ad_type :: string
  ad_inbox :: string
  ad_shared_inbox :: "string option"
  ad_also_known_as :: "string list"

record actor =
  a_id :: nat
  a_ap_id :: string
  a_ap_actor :: actor_doc
  a_is_blocked :: bool
  a_is_deleted :: bool

record inbox_object =
  io_id :: nat
  io_actor_id :: nat
  io_ap_actor_id :: string
  io_ap_type :: string
  io_ap_id :: string
  io_ap_context :: "string option"
  io_conversation :: "string option"
  io_ap_published_at :: int
  io_ap_object :: raw_object
  io_visibility :: visibility
  io_activity_object_ap_id :: "string option"
  io_relates_to_inbox_object_id :: "nat option"
  io_relates_to_outbox_object_id :: "nat option"
  io_undone_by_inbox_object_id :: "nat option"
  io_liked_via_outbox_object_ap_id :: "string option"
  io_announced_via_outbox_object_ap_id :: "string option"
  io_quoted_inbox_object_id :: "nat option"
  io_is_hidden_from_stream :: bool
  io_replies_count :: int
  io_is_deleted :: bool
  io_is_transient :: bool

record outbox_object =
  oo_id :: nat
  oo_public_id :: string
  oo_ap_type :: string
  oo_ap_id :: string
  oo_ap_context :: "string option"
  oo_ap_object :: raw_object
  oo_visibility :: visibility
  oo_activity_object_ap_id :: "string option"
  oo_relates_to_inbox_object_id :: "nat option"
  oo_relates_to_outbox_object_id :: "nat option"
  oo_relates_to_actor_id :: "nat option"
  oo_is_hidden_from_homepage :: bool
  oo_source :: "string option"
  oo_is_transient :: bool
  oo_conversation :: "string option"
  oo_ap_published_at :: int
  oo_likes_count :: int
  oo_announces_count :: int
  oo_replies_count :: int
  oo_is_deleted :: bool
  oo_undone_by_outbox_object_id :: "nat option"

record follower =
  fr_id :: nat
  fr_actor_id :: nat
  fr_inbox_object_id :: nat
  fr_ap_actor_id :: string

record following =
  fg_id :: nat
  fg_actor_id :: nat
  fg_outbox_object_id :: nat
  fg_ap_actor_id :: string

datatype notification_type =
    NEW_FOLLOWER | UNFOLLOW | LIKE | UNDO_LIKE | ANNOUNCE | UNDO_ANNOUNCE | MENTION | MOVE

record notification =
  n_notification_type :: notification_type
  n_actor_id :: "nat option"
  n_outbox_object_id :: "nat option"
  n_inbox_object_id :: "nat option"

record poll_answer =
  pa_outbox_object_id :: nat
  pa_poll_type :: string
  pa_inbox_object_id :: nat
  pa_actor_id :: nat
  pa_name :: string

record outgoing_activity =
  og_recipient :: string
  og_outbox_object_id :: "nat option"
  og_inbox_object_id :: "nat option"

record db =
  actors :: "actor list"
  inbox :: "inbox_object list"
  outbox :: "outbox_object list"
  followers :: "follower list"
  followings :: "following list"
  notifications :: "notification list"
  poll_answers :: "poll_answer list"
  outgoing_activities :: "outgoing_activity list"

text \<open>
  The configuration (app/config.py) and the local actor (app/actor.py) are module
  constants of the program; they are not among the sources, so they are parameters.
\<close>

record config =
  BASE_URL :: string
  ID :: string
  LOCAL_ACTOR_handle :: string
  LOCAL_ACTOR_url :: string
  BLOCKED_SERVERS :: "string list"

section \<open>Python values\<close>

text \<open>\<open>if x:\<close> on an optional string: \<open>None\<close> and the empty string are false.\<close>

definition truthy :: "string option \<Rightarrow> bool" where
  "truthy x = (case x of None \<Rightarrow> False | Some v \<Rightarrow> v \<noteq> [])"

text \<open>\<open>s.startswith(p)\<close>.\<close>

definition startswith :: "string \<Rightarrow> string \<Rightarrow> bool" where
  "startswith s p = (take (length p) s = p)"

text \<open>Iterating over a Python \<open>set\<close> built from a list: each element once.\<close>

definition as_set :: "'a list \<Rightarrow> 'a list" where
  "as_set xs = remdups xs"

section \<open>Queries (app/boxes.py, lines 865-934 and 1041-1061)\<close>

text \<open>
  \<open>ap_id\<close> is unique in each store, so \<open>scalar_one_or_none\<close> is the first row that
  matches.
\<close>

definition get_inbox_object_by_ap_id :: "db \<Rightarrow> string \<Rightarrow> inbox_object option" where
  "get_inbox_object_by_ap_id s a = find (\<lambda>x. io_ap_id x = a) (inbox s)"

definition get_outbox_object_by_ap_id :: "db \<Rightarrow> string \<Rightarrow> outbox_object option" where
  "get_outbox_object_by_ap_id s a = find (\<lambda>x. oo_ap_id x = a) (outbox s)"

text \<open>
  \<open>AnyboxObject = models.InboxObject | models.OutboxObject\<close>; \<open>is_from_outbox\<close> is the
  constructor.
\<close>

datatype anybox = FromInbox inbox_object | FromOutbox outbox_object

definition get_anybox_object_by_ap_id :: "config \<Rightarrow> db \<Rightarrow> string \<Rightarrow> anybox option" where
  "get_anybox_object_by_ap_id cfg s a =
     (if startswith a (BASE_URL cfg)
      then map_option FromOutbox (get_outbox_object_by_ap_id s a)
      else map_option FromInbox (get_inbox_object_by_ap_id s a))"

definition in_reply_to :: "inbox_object \<Rightarrow> string option" where
  "in_reply_to x = ro_in_reply_to (io_ap_object x)"

definition oo_in_reply_to :: "outbox_object \<Rightarrow> string option" where
  "oo_in_reply_to x = ro_in_reply_to (oo_ap_object x)"

definition get_replies_count :: "db \<Rightarrow> string \<Rightarrow> int" where
  "get_replies_count s replied_object_ap_id =
     int (length (filter (\<lambda>x. in_reply_to x = Some replied_object_ap_id \<and> \<not> io_is_deleted x)
            (inbox s)))
     + int (length (filter (\<lambda>x. oo_in_reply_to x = Some replied_object_ap_id \<and> \<not> oo_is_deleted x)
            (outbox s)))"

text \<open>The relationship \<open>actor\<close> of a row: the actor row with that primary key.\<close>

definition actor_by_id :: "db \<Rightarrow> nat \<Rightarrow> actor option" where
  "actor_by_id s i = find (\<lambda>a. a_id a = i) (actors s)"

definition shared_inbox_url :: "actor \<Rightarrow> string" where
  "shared_inbox_url a =
     (case ad_shared_inbox (a_ap_actor a) of
        None \<Rightarrow> ad_inbox (a_ap_actor a)
      | Some u \<Rightarrow> if u = [] then ad_inbox (a_ap_actor a) else u)"

definition inbox_url :: "actor \<Rightarrow> string" where
  "inbox_url a = ad_inbox (a_ap_actor a)"

text \<open>
  \<open>_get_followers_recipients\<close> (lines 832-846): the shared inbox of every follower whose
  actor is not skipped.
\<close>

definition get_followers_recipients :: "db \<Rightarrow> string list \<Rightarrow> string list" where
  "get_followers_recipients s actor_ap_ids_to_skip =
     as_set (concat (map (\<lambda>f. case actor_by_id s (fr_actor_id f) of
                                 None \<Rightarrow> []
                               | Some a \<Rightarrow> if a_ap_id a \<in> set actor_ap_ids_to_skip then []
                                           else [shared_inbox_url a])
                         (followers s)))"

text \<open>
  Modelled from the spec: \<open>new_outgoing_activity\<close> (app/outgoing_activities.py is not
  among the sources) is the Delivery Dispatcher's \<open>enqueue(recipientEndpoint,
  {outboxObjectId | inboxObjectId})\<close>; it adds one delivery work item.
\<close>

definition new_outgoing_activity :: "db \<Rightarrow> string \<Rightarrow> nat option \<Rightarrow> nat option \<Rightarrow> db" where
  "new_outgoing_activity s rcp outbox_id inbox_id =
     s\<lparr>outgoing_activities := outgoing_activities s @
          [\<lparr>og_recipient = rcp, og_outbox_object_id = outbox_id, og_inbox_object_id = inbox_id\<rparr>]\<rparr>"

section \<open>The collaborators outside the engine\<close>

text \<open>
  The network, as the engine sees it: \<open>ap.fetch\<close> dereferences an object id, and the
  actor directory dereferences an actor id. Both fail with a classified error or a raw
  transport status. \<open>fetch_recipient\<close> is \<open>ap.fetch\<close> on an addressing value, read as
  \<open>_compute_recipients\<close> reads it: an actor document, or else the members of a collection
  (\<open>ap.parse_collection\<close>). \<open>now\<close> is the clock.
\<close>

record env =
  ap_fetch :: "string \<Rightarrow> error + raw_object"
  fetch_remote_actor :: "string \<Rightarrow> error + actor_doc"
  fetch_recipient :: "string \<Rightarrow> error + (actor_doc + actor_doc list)"
  verify_signature :: "raw_object \<Rightarrow> error + bool"
  now :: int

definition fresh_id :: "nat list \<Rightarrow> nat" where
  "fresh_id ids = Suc (fold max ids 0)"

text \<open>
  Modelled from the spec: \<open>fetch_actor\<close> and \<open>save_actor\<close> (app/actor.py is not among
  the sources). \<open>fetch(ap_id, save_if_not_found=true)\<close> returns a cached Actor by
  \<open>ap_id\<close>; if absent, it dereferences the identifier over the network and persists it;
  with \<open>save_if_not_found=false\<close> an absent actor is an \<open>ObjectNotFoundError\<close>.
\<close>

definition save_actor :: "db \<Rightarrow> actor_doc \<Rightarrow> actor \<times> db" where
  "save_actor s doc =
     (let a = \<lparr>a_id = fresh_id (map a_id (actors s)), a_ap_id = ad_id doc, a_ap_actor = doc,
                a_is_blocked = False, a_is_deleted = False\<rparr>
      in (a, s\<lparr>actors := actors s @ [a]\<rparr>))"

definition fetch_actor :: "env \<Rightarrow> db \<Rightarrow> string \<Rightarrow> bool \<Rightarrow> (error + actor) \<times> db" where
  "fetch_actor e s actor_id save_if_not_found =
     (case find (\<lambda>a. a_ap_id a = actor_id) (actors s) of
        Some a \<Rightarrow> (Inr a, s)
      | None \<Rightarrow>
          if save_if_not_found then
            (case fetch_remote_actor e actor_id of
               Inl err \<Rightarrow> (Inl err, s)
             | Inr doc \<Rightarrow> (case save_actor s doc of (a, s') \<Rightarrow> (Inr a, s')))
          else (Inl ObjectNotFoundError, s))"

section \<open>Side-effect reversion and inbound Delete (app/boxes.py, lines 937-1172)\<close>

definition update_inbox :: "db \<Rightarrow> nat \<Rightarrow> (inbox_object \<Rightarrow> inbox_object) \<Rightarrow> db" where
  "update_inbox s i f = s\<lparr>inbox := map (\<lambda>x. if io_id x = i then f x else x) (inbox s)\<rparr>"

definition update_outbox :: "db \<Rightarrow> nat \<Rightarrow> (outbox_object \<Rightarrow> outbox_object) \<Rightarrow> db" where
  "update_outbox s i f = s\<lparr>outbox := map (\<lambda>x. if oo_id x = i then f x else x) (outbox s)\<rparr>"

definition has_ld_signature :: "inbox_object \<Rightarrow> bool" where
  "has_ld_signature x = ro_has_ld_signature (io_ap_object x)"

text \<open>
  \<open>_revert_side_effect_for_deleted_object\<close>, block by block. \<open>x.actor.ap_id\<close> of an
  inbox row is its column \<open>ap_actor_id\<close> (both are written from the same actor wherever
  a row is created).

  Lines 1072-1106: the replies counter of the parent is set to what \<open>_get_replies_count\<close>
  returns on the session as it is at that moment; the result says whether the parent is
  an outbox object (\<open>is_delete_needs_to_be_forwarded\<close>).
\<close>

definition revert_replies_count :: "config \<Rightarrow> db \<Rightarrow> inbox_object \<Rightarrow> db \<times> bool" where
  "revert_replies_count cfg s deleted_ap_object =
     (case in_reply_to deleted_ap_object of
        None \<Rightarrow> (s, False)
      | Some irt \<Rightarrow>
          if irt = [] then (s, False)
          else
            (case get_anybox_object_by_ap_id cfg s irt of
               None \<Rightarrow> (s, False)
             | Some (FromOutbox replied_object) \<Rightarrow>
                 (let new_replies_count = get_replies_count s (oo_ap_id replied_object)
                  in (update_outbox s (oo_id replied_object)
                        (\<lambda>x. x\<lparr>oo_replies_count := new_replies_count\<rparr>), True))
             | Some (FromInbox replied_object) \<Rightarrow>
                 (let new_replies_count = get_replies_count s (io_ap_id replied_object)
                  in (update_inbox s (io_id replied_object)
                        (\<lambda>x. x\<lparr>io_replies_count := new_replies_count\<rparr>), False))))"

text \<open>
  Lines 1108-1138: the counter of the liked or announced outbox object. The second
  comparison is with the string \<open>"Annouce"\<close>, as at line 1123.
\<close>

definition revert_like_announce_count :: "db \<Rightarrow> inbox_object \<Rightarrow> db" where
  "revert_like_announce_count s deleted_ap_object =
     (if io_ap_type deleted_ap_object = ''Like''
         \<and> truthy (io_activity_object_ap_id deleted_ap_object) then
        (case get_outbox_object_by_ap_id s (the (io_activity_object_ap_id deleted_ap_object)) of
           None \<Rightarrow> s
         | Some related_object \<Rightarrow>
             update_outbox s (oo_id related_object)
               (\<lambda>x. x\<lparr>oo_likes_count := oo_likes_count x - 1\<rparr>))
      else if io_ap_type deleted_ap_object = ''Annouce''
         \<and> truthy (io_activity_object_ap_id deleted_ap_object) then
        (case get_outbox_object_by_ap_id s (the (io_activity_object_ap_id deleted_ap_object)) of
           None \<Rightarrow> s
         | Some related_object \<Rightarrow>
             update_outbox s (oo_id related_object)
               (\<lambda>x. x\<lparr>oo_announces_count := oo_announces_count x - 1\<rparr>))
      else s)"

text \<open>Lines 1140-1147 (\<open># Delete any Like/Announce\<close>): an UPDATE of the outbox table.\<close>

definition delete_any_like_announce :: "db \<Rightarrow> inbox_object \<Rightarrow> db" where
  "delete_any_like_announce s deleted_ap_object =
     s\<lparr>outbox :=
         map (\<lambda>x. if oo_activity_object_ap_id x = Some (io_ap_id deleted_ap_object)
                   then x\<lparr>oo_is_deleted := True\<rparr> else x) (outbox s)\<rparr>"

text \<open>Lines 1156-1172: the Delete is forwarded to the followers.\<close>

definition forward_delete :: "db \<Rightarrow> inbox_object \<Rightarrow> actor option \<Rightarrow> db" where
  "forward_delete s delete_activity forwarded_by_actor =
     (let skip_actors = io_ap_actor_id delete_activity #
            (case forwarded_by_actor of None \<Rightarrow> [] | Some f \<Rightarrow> [a_ap_id f]);
          recipients = get_followers_recipients s skip_actors
      in fold (\<lambda>rcp t. new_outgoing_activity t rcp None (Some (io_id delete_activity)))
           recipients s)"

definition revert_side_effect_for_deleted_object ::
  "config \<Rightarrow> db \<Rightarrow> inbox_object \<Rightarrow> inbox_object \<Rightarrow> actor option \<Rightarrow> db" where
  "revert_side_effect_for_deleted_object cfg s delete_activity deleted_ap_object forwarded_by_actor =
     (case revert_replies_count cfg s deleted_ap_object of
        (s1, is_delete_needs_to_be_forwarded) \<Rightarrow>
          (let s2 = revert_like_announce_count s1 deleted_ap_object;
               s3 = delete_any_like_announce s2 deleted_ap_object
           in if io_activity_object_ap_id delete_activity = Some (io_ap_id deleted_ap_object)
                 \<and> has_ld_signature delete_activity
                 \<and> is_delete_needs_to_be_forwarded
              then forward_delete s3 delete_activity forwarded_by_actor
              else s3))"

text \<open>
  \<open>_handle_delete_activity\<close>. The object to delete is the inbox object the Delete
  relates to, or else a known actor; the side effects are reverted first and the row is
  marked deleted after (lines 977-983 and 1028-1034).
\<close>

definition handle_delete_activity ::
  "config \<Rightarrow> env \<Rightarrow> db \<Rightarrow> actor \<Rightarrow> inbox_object \<Rightarrow> inbox_object option \<Rightarrow> actor option
     \<Rightarrow> error + db" where
  "handle_delete_activity cfg e s from_actor delete_activity relates_to_inbox_object forwarded_by_actor =
     (case relates_to_inbox_object of
        Some ap_object_to_delete \<Rightarrow>
          if a_ap_id from_actor \<noteq> io_ap_actor_id ap_object_to_delete then Inr s
          else
            (let s1 = revert_side_effect_for_deleted_object cfg s delete_activity
                        ap_object_to_delete forwarded_by_actor
             in Inr (update_inbox s1 (io_id ap_object_to_delete) (\<lambda>x. x\<lparr>io_is_deleted := True\<rparr>)))
      | None \<Rightarrow>
          if \<not> truthy (io_activity_object_ap_id delete_activity) then Inr s
          else
            (case fetch_actor e s (the (io_activity_object_ap_id delete_activity)) False of
               (Inl ObjectNotFoundError, s0) \<Rightarrow> Inr s0
             | (Inl err, s0) \<Rightarrow> Inl err
             | (Inr ap_object_to_delete, s0) \<Rightarrow>
                 if a_ap_id from_actor \<noteq> a_ap_id ap_object_to_delete then Inr s0
                 else
                   (let s1 = s0\<lparr>followers :=
                               filter (\<lambda>f. fr_ap_actor_id f \<noteq> a_ap_id ap_object_to_delete)
                                 (followers s0)\<rparr>;
                        s2 = s1\<lparr>followings :=
                               filter (\<lambda>f. fg_ap_actor_id f \<noteq> a_ap_id ap_object_to_delete)
                                 (followings s1)\<rparr>;
                        s3 = s2\<lparr>actors :=
                               map (\<lambda>a. if a_id a = a_id ap_object_to_delete
                                         then a\<lparr>a_is_deleted := True\<rparr> else a) (actors s2)\<rparr>;
                        inbox_objects =
                          filter (\<lambda>x. io_actor_id x = a_id ap_object_to_delete \<and> \<not> io_is_deleted x)
                            (inbox s3)
                    in Inr (fold (\<lambda>inbox_object t.
                                   update_inbox
                                     (revert_side_effect_for_deleted_object cfg t delete_activity
                                        inbox_object None)
                                     (io_id inbox_object) (\<lambda>x. x\<lparr>io_is_deleted := True\<rparr>))
                              inbox_objects s3))))"

section \<open>Recipients and outbound Follow and Undo (app/boxes.py, lines 46-88, 229-342, 752-794)\<close>

definition AS_PUBLIC :: string where
  "AS_PUBLIC = ''https://www.w3.org/ns/activitystreams#Public''"

definition outbox_object_id :: "config \<Rightarrow> string \<Rightarrow> string" where
  "outbox_object_id cfg outbox_id = BASE_URL cfg @ ''/o/'' @ outbox_id"

text \<open>
  \<open>save_outbox_object\<close>, for the callers below, which leave \<open>source\<close>, \<open>is_transient\<close> and
  \<open>conversation\<close> at their defaults. The columns are read off the document as
  \<open>RemoteObject.from_raw_object\<close> does; the counters and flags take the defaults of
  app/models.py. The primary key is the next one of the table.
\<close>

definition save_outbox_object ::
  "env \<Rightarrow> db \<Rightarrow> string \<Rightarrow> raw_object \<Rightarrow> nat option \<Rightarrow> nat option \<Rightarrow> nat option
     \<Rightarrow> outbox_object \<times> db" where
  "save_outbox_object e s public_id raw relates_to_inbox_object_id relates_to_outbox_object_id
       relates_to_actor_id =
     (let outbox_object =
            \<lparr>oo_id = fresh_id (map oo_id (outbox s)),
             oo_public_id = public_id,
             oo_ap_type = ro_type raw,
             oo_ap_id = (case ro_id raw of None \<Rightarrow> [] | Some i \<Rightarrow> i),
             oo_ap_context = ro_context raw,
             oo_ap_object = raw,
             oo_visibility = ro_visibility raw,
             oo_activity_object_ap_id = ro_object_id raw,
             oo_relates_to_inbox_object_id = relates_to_inbox_object_id,
             oo_relates_to_outbox_object_id = relates_to_outbox_object_id,
             oo_relates_to_actor_id = relates_to_actor_id,
             oo_is_hidden_from_homepage = truthy (ro_in_reply_to raw),
             oo_source = None,
             oo_is_transient = False,
             oo_conversation = None,
             oo_ap_published_at = now e,
             oo_likes_count = 0,
             oo_announces_count = 0,
             oo_replies_count = 0,
             oo_is_deleted = False,
             oo_undone_by_outbox_object_id = None\<rparr>
      in (outbox_object, s\<lparr>outbox := outbox s @ [outbox_object]\<rparr>))"

text \<open>
  \<open>fetch_actor_collection\<close> on a local collection (lines 2273-2289): only the followers
  collection is supported.
\<close>

definition fetch_actor_collection :: "config \<Rightarrow> db \<Rightarrow> string \<Rightarrow> error + actor list" where
  "fetch_actor_collection cfg s url =
     (if url = BASE_URL cfg @ ''/followers''
      then Inr (concat (map (\<lambda>f. case actor_by_id s (fr_actor_id f) of
                                     None \<Rightarrow> [] | Some a \<Rightarrow> [a]) (followers s)))
      else Inl (ValueError (''internal collection for '' @ url @ '') not supported'')))"

text \<open>
  \<open>_compute_recipients\<close>: the loop over the flattened \<open>to\<close>, \<open>cc\<close>, \<open>bto\<close>, \<open>bcc\<close> values;
  the accumulator is the set of endpoints, kept as a list without repetitions.
\<close>

fun compute_recipients_loop ::
  "config \<Rightarrow> env \<Rightarrow> string list \<Rightarrow> string list \<Rightarrow> db \<Rightarrow> (error + string list) \<times> db" where
  "compute_recipients_loop cfg e [] recipients s = (Inr recipients, s)"
| "compute_recipients_loop cfg e (r # rs) recipients s =
     (if r = AS_PUBLIC \<or> r = ID cfg then compute_recipients_loop cfg e rs recipients s
      else if startswith r (BASE_URL cfg) then
        (case fetch_actor_collection cfg s r of
           Inl err \<Rightarrow> (Inl err, s)
         | Inr members \<Rightarrow>
             compute_recipients_loop cfg e rs
               (as_set (recipients @ map shared_inbox_url members)) s)
      else
        (case find (\<lambda>a. a_ap_id a = r) (actors s) of
           Some known_actor \<Rightarrow>
             compute_recipients_loop cfg e rs
               (as_set (recipients @ [shared_inbox_url known_actor])) s
         | None \<Rightarrow>
             (case fetch_recipient e r of
                Inl err \<Rightarrow> (Inl err, s)
              | Inr (Inl doc) \<Rightarrow>
                  (case save_actor s doc of
                     (saved_actor, s') \<Rightarrow>
                       compute_recipients_loop cfg e rs
                         (as_set (recipients @ [shared_inbox_url saved_actor])) s')
              | Inr (Inr members) \<Rightarrow>
                  compute_recipients_loop cfg e rs
                    (as_set (recipients @
                       map (\<lambda>d. case ad_shared_inbox d of
                                   None \<Rightarrow> ad_inbox d
                                 | Some u \<Rightarrow> if u = [] then ad_inbox d else u) members)) s)))"

definition compute_recipients ::
  "config \<Rightarrow> env \<Rightarrow> db \<Rightarrow> raw_object \<Rightarrow> (error + string list) \<times> db" where
  "compute_recipients cfg e s ap_object =
     compute_recipients_loop cfg e (ro_addressing ap_object) [] s"

text \<open>
  The documents built by \<open>_send_follow\<close> and \<open>_send_undo\<close>. Neither has \<open>to\<close> or \<open>cc\<close>,
  which is the visibility \<open>DIRECT\<close>.
\<close>

definition follow_document :: "config \<Rightarrow> string \<Rightarrow> string \<Rightarrow> raw_object" where
  "follow_document cfg follow_id ap_actor_id =
     \<lparr>ro_id = Some (outbox_object_id cfg follow_id), ro_type = ''Follow'',
      ro_actor = Some (ID cfg), ro_object_id = Some ap_actor_id, ro_target = None,
      ro_context = None, ro_in_reply_to = None, ro_content = None, ro_name = None,
      ro_published = None, ro_tag = [], ro_quote_url = None, ro_has_ld_signature = False,
      ro_visibility = DIRECT, ro_addressing = [], ro_one_of = None, ro_any_of = None,
      ro_voters_count = None, ro_end_time = None, ro_updated = None\<rparr>"

definition undo_document :: "config \<Rightarrow> string \<Rightarrow> raw_object \<Rightarrow> raw_object" where
  "undo_document cfg undo_id undone =
     \<lparr>ro_id = Some (outbox_object_id cfg undo_id), ro_type = ''Undo'',
      ro_actor = Some (ID cfg), ro_object_id = ro_id undone, ro_target = None,
      ro_context = None, ro_in_reply_to = None, ro_content = None, ro_name = None,
      ro_published = None, ro_tag = [], ro_quote_url = None, ro_has_ld_signature = False,
      ro_visibility = DIRECT, ro_addressing = [], ro_one_of = None, ro_any_of = None,
      ro_voters_count = None, ro_end_time = None, ro_updated = None\<rparr>"

text \<open>
  \<open>_send_follow\<close> and \<open>_send_undo\<close> return the session as it is when they return or
  raise, so that what was persisted before an exception is visible; \<open>allocate_outbox_id\<close>
  (a random UUID) is the argument \<open>follow_id\<close>, \<open>undo_id\<close>. The public \<open>send_follow\<close> and
  \<open>send_undo\<close> commit after a normal return; an exception leaves the transaction
  uncommitted.
\<close>

definition send_follow_inner ::
  "config \<Rightarrow> env \<Rightarrow> string \<Rightarrow> db \<Rightarrow> string \<Rightarrow> (error + unit) \<times> db" where
  "send_follow_inner cfg e follow_id s ap_actor_id =
     (case fetch_actor e s ap_actor_id True of
        (Inl err, s0) \<Rightarrow> (Inl err, s0)
      | (Inr actor, s0) \<Rightarrow>
          (case save_outbox_object e s0 follow_id (follow_document cfg follow_id ap_actor_id)
                  None None (Some (a_id actor)) of
             (outbox_object, s1) \<Rightarrow>
               if oo_id outbox_object = 0 then (Inl (ValueError ''Should never happen''), s1)
               else (Inr (), new_outgoing_activity s1 (inbox_url actor)
                                (Some (oo_id outbox_object)) None)))"

definition send_undo_inner ::
  "config \<Rightarrow> env \<Rightarrow> string \<Rightarrow> db \<Rightarrow> string \<Rightarrow> (error + unit) \<times> db" where
  "send_undo_inner cfg e undo_id s ap_object_id =
     (case get_outbox_object_by_ap_id s ap_object_id of
        None \<Rightarrow> (Inl (ValueError (ap_object_id @ '' not found in the outbox'')), s)
      | Some outbox_object_to_undo \<Rightarrow>
          if oo_ap_type outbox_object_to_undo \<notin> set [''Follow'', ''Like'', ''Announce'']
          then (Inl (ValueError (''Cannot build Undo for '' @ oo_ap_type outbox_object_to_undo
                                   @ '' activity'')), s)
          else
            (case save_outbox_object e s undo_id
                    (undo_document cfg undo_id (oo_ap_object outbox_object_to_undo))
                    None (Some (oo_id outbox_object_to_undo)) None of
               (outbox_object, s1) \<Rightarrow>
                 if oo_id outbox_object = 0 then (Inl (ValueError ''Should never happen''), s1)
                 else
                   (let s2 = update_outbox s1 (oo_id outbox_object_to_undo)
                               (\<lambda>x. x\<lparr>oo_undone_by_outbox_object_id :=
                                         Some (oo_id outbox_object)\<rparr>)
                    in
                      if oo_ap_type outbox_object_to_undo = ''Follow'' then
                        (if \<not> truthy (oo_activity_object_ap_id outbox_object_to_undo)
                         then (Inl (ValueError ''Should never happen''), s2)
                         else
                           (case fetch_actor e s2
                                   (the (oo_activity_object_ap_id outbox_object_to_undo)) True of
                              (Inl err, s3) \<Rightarrow> (Inl err, s3)
                            | (Inr followed_actor, s3) \<Rightarrow>
                                (let s4 = new_outgoing_activity s3 (inbox_url followed_actor)
                                            (Some (oo_id outbox_object)) None
                                 in (Inr (),
                                     s4\<lparr>followings :=
                                          filter (\<lambda>f. fg_ap_actor_id f \<noteq> a_ap_id followed_actor)
                                            (followings s4)\<rparr>))))
                      else if oo_ap_type outbox_object_to_undo = ''Like'' then
                        (if \<not> truthy (oo_activity_object_ap_id outbox_object_to_undo)
                         then (Inl (ValueError ''Should never happen''), s2)
                         else
                           (case get_inbox_object_by_ap_id s2
                                   (the (oo_activity_object_ap_id outbox_object_to_undo)) of
                              None \<Rightarrow>
                                (Inl (ValueError (''Cannot find liked object '' @
                                   the (oo_activity_object_ap_id outbox_object_to_undo))), s2)
                            | Some liked_object \<Rightarrow>
                                (let s3 = update_inbox s2 (io_id liked_object)
                                            (\<lambda>x. x\<lparr>io_liked_via_outbox_object_ap_id := None\<rparr>)
                                 in case actor_by_id s3 (io_actor_id liked_object) of
                                      None \<Rightarrow> (Inl AttributeError, s3)
                                    | Some liked_actor \<Rightarrow>
                                        (Inr (), new_outgoing_activity s3 (inbox_url liked_actor)
                                                   (Some (oo_id outbox_object)) None))))
                      else if oo_ap_type outbox_object_to_undo = ''Announce'' then
                        (if \<not> truthy (oo_activity_object_ap_id outbox_object_to_undo)
                         then (Inl (ValueError ''Should never happen''), s2)
                         else
                           (case get_inbox_object_by_ap_id s2
                                   (the (oo_activity_object_ap_id outbox_object_to_undo)) of
                              None \<Rightarrow>
                                (Inl (ValueError (''Cannot find announced object '' @
                                   the (oo_activity_object_ap_id outbox_object_to_undo))), s2)
                            | Some announced_object \<Rightarrow>
                                (let s3 = update_inbox s2 (io_id announced_object)
                                            (\<lambda>x. x\<lparr>io_announced_via_outbox_object_ap_id := None\<rparr>)
                                 in case compute_recipients cfg e s3 (oo_ap_object outbox_object) of
                                      (Inl err, s4) \<Rightarrow> (Inl err, s4)
                                    | (Inr recipients, s4) \<Rightarrow>
                                        (Inr (),
                                         fold (\<lambda>rcp t. new_outgoing_activity t rcp
                                                          (Some (oo_id outbox_object)) None)
                                           recipients s4))))
                      else (Inl (ValueError ''Should never happen''), s2))))"

definition send_undo :: "config \<Rightarrow> env \<Rightarrow> string \<Rightarrow> db \<Rightarrow> string \<Rightarrow> error + db" where
  "send_undo cfg e undo_id s ap_object_id =
     (case send_undo_inner cfg e undo_id s ap_object_id of
        (Inl err, s') \<Rightarrow> Inl err
      | (Inr u, s') \<Rightarrow> Inr s')"

definition send_follow :: "config \<Rightarrow> env \<Rightarrow> string \<Rightarrow> db \<Rightarrow> string \<Rightarrow> error + db" where
  "send_follow cfg e follow_id s ap_actor_id =
     (case send_follow_inner cfg e follow_id s ap_actor_id of
        (Inl err, s') \<Rightarrow> Inl err
      | (Inr u, s') \<Rightarrow> Inr s')"

section \<open>Inbound Move (app/boxes.py, lines 1396-1458)\<close>

text \<open>
  \<open>_handle_move_activity\<close>. \<open>ap.get_object_id\<close> raises on an activity without object;
  \<open>following.outbox_object\<close> is the outbox row with the key \<open>outbox_object_id\<close>. The two
  fresh outbox ids are arguments.
\<close>

definition handle_move_activity ::
  "config \<Rightarrow> env \<Rightarrow> string \<Rightarrow> string \<Rightarrow> db \<Rightarrow> actor \<Rightarrow> inbox_object \<Rightarrow> error + db" where
  "handle_move_activity cfg e undo_id follow_id s from_actor move_activity =
     (case ro_object_id (io_ap_object move_activity) of
        None \<Rightarrow> Inl (ValueError ''Invalid activity'')
      | Some old_actor_id \<Rightarrow>
          if old_actor_id \<noteq> a_ap_id from_actor then Inr s
          else if \<not> truthy (ro_target (io_ap_object move_activity)) then Inr s
          else
            (let new_actor_id = the (ro_target (io_ap_object move_activity)) in
             case fetch_actor e s new_actor_id True of
               (Inl err, s0) \<Rightarrow> Inl err
             | (Inr new_actor, s0) \<Rightarrow>
                 if old_actor_id \<notin> set (ad_also_known_as (a_ap_actor new_actor)) then Inr s0
                 else
                   (case find (\<lambda>f. fg_ap_actor_id f = old_actor_id) (followings s0) of
                      None \<Rightarrow> Inr s0
                    | Some following \<Rightarrow>
                        (case find (\<lambda>x. oo_id x = fg_outbox_object_id following) (outbox s0) of
                           None \<Rightarrow> Inl AttributeError
                         | Some followed_via \<Rightarrow>
                             (case send_undo_inner cfg e undo_id s0 (oo_ap_id followed_via) of
                                (Inl err, s1) \<Rightarrow> Inl err
                              | (Inr u, s1) \<Rightarrow>
                                  (case (if find (\<lambda>f. fg_ap_actor_id f = new_actor_id)
                                              (followings s1) = None
                                         then send_follow_inner cfg e follow_id s1 new_actor_id
                                         else (Inr (), s1)) of
                                     (Inl err, s2) \<Rightarrow> Inl err
                                   | (Inr u', s2) \<Rightarrow>
                                       Inr (s2\<lparr>notifications := notifications s2 @
                                              [\<lparr>n_notification_type = MOVE,
                                                n_actor_id = Some (a_id new_actor),
                                                n_outbox_object_id = None,
                                                n_inbox_object_id = Some (io_id move_activity)\<rparr>]\<rparr>)))))))"

section \<open>A small instance: one remote server, one local one\<close>

definition example_config :: config where
  "example_config =
     \<lparr>BASE_URL = ''https://me.example'', ID = ''https://me.example'',
      LOCAL_ACTOR_handle = ''@me@me.example'', LOCAL_ACTOR_url = ''https://me.example'',
      BLOCKED_SERVERS = []\<rparr>"

definition offline :: env where
  "offline =
     \<lparr>ap_fetch = (\<lambda>_. Inl ObjectNotFoundError),
      fetch_remote_actor = (\<lambda>_. Inl ObjectNotFoundError),
      fetch_recipient = (\<lambda>_. Inl ObjectNotFoundError),
      verify_signature = (\<lambda>_. Inr False),
      now = 1000\<rparr>"

definition empty_document :: raw_object where
  "empty_document =
     \<lparr>ro_id = None, ro_type = ''Note'', ro_actor = None, ro_object_id = None,
      ro_target = None, ro_context = None, ro_in_reply_to = None, ro_content = None,
      ro_name = None, ro_published = None, ro_tag = [], ro_quote_url = None,
      ro_has_ld_signature = False, ro_visibility = PUBLIC, ro_addressing = [],
      ro_one_of = None, ro_any_of = None, ro_voters_count = None, ro_end_time = None,
      ro_updated = None\<rparr>"

definition remote_row :: inbox_object where
  "remote_row =
     \<lparr>io_id = 0, io_actor_id = 1, io_ap_actor_id = ''https://r.example/u'',
      io_ap_type = ''Note'', io_ap_id = [], io_ap_context = None, io_conversation = None,
      io_ap_published_at = 0, io_ap_object = empty_document, io_visibility = PUBLIC,
      io_activity_object_ap_id = None, io_relates_to_inbox_object_id = None,
      io_relates_to_outbox_object_id = None, io_undone_by_inbox_object_id = None,
      io_liked_via_outbox_object_ap_id = None, io_announced_via_outbox_object_ap_id = None,
      io_quoted_inbox_object_id = None, io_is_hidden_from_stream = True,
      io_replies_count = 0, io_is_deleted = False, io_is_transient = False\<rparr>"

definition local_row :: outbox_object where
  "local_row =
     \<lparr>oo_id = 0, oo_public_id = [], oo_ap_type = ''Note'', oo_ap_id = [],
      oo_ap_context = None, oo_ap_object = empty_document, oo_visibility = PUBLIC,
      oo_activity_object_ap_id = None, oo_relates_to_inbox_object_id = None,
      oo_relates_to_outbox_object_id = None, oo_relates_to_actor_id = None,
      oo_is_hidden_from_homepage = False, oo_source = None, oo_is_transient = False,
      oo_conversation = None, oo_ap_published_at = 0, oo_likes_count = 0,
      oo_announces_count = 0, oo_replies_count = 0, oo_is_deleted = False,
      oo_undone_by_outbox_object_id = None\<rparr>"

definition actor_u :: actor where
  "actor_u =
     \<lparr>a_id = 1, a_ap_id = ''https://r.example/u'',
      a_ap_actor = \<lparr>ad_id = ''https://r.example/u'', ad_type = ''Person'',
                    ad_inbox = ''https://r.example/u/inbox'',
                    ad_shared_inbox = Some ''https://r.example/inbox'',
                    ad_also_known_as = []\<rparr>,
      a_is_blocked = False, a_is_deleted = False\<rparr>"

definition actor_v :: actor where
  "actor_v =
     \<lparr>a_id = 2, a_ap_id = ''https://r.example/v'',
      a_ap_actor = \<lparr>ad_id = ''https://r.example/v'', ad_type = ''Person'',
                    ad_inbox = ''https://r.example/v/inbox'',
                    ad_shared_inbox = Some ''https://r.example/inbox'',
                    ad_also_known_as = []\<rparr>,
      a_is_blocked = False, a_is_deleted = False\<rparr>"

definition empty_db :: db where
  "empty_db =
     \<lparr>actors = [actor_u, actor_v], inbox = [], outbox = [], followers = [], followings = [],
      notifications = [], poll_answers = [], outgoing_activities = []\<rparr>"

text \<open>A local post announced once by \<open>u\<close>, and the Delete of that Announce.\<close>

definition announced_post :: outbox_object where
  "announced_post =
     local_row\<lparr>oo_id := 1, oo_ap_id := ''https://me.example/o/p'', oo_announces_count := 1\<rparr>"

definition announce_of_post :: inbox_object where
  "announce_of_post =
     remote_row\<lparr>io_id := 1, io_ap_type := ''Announce'', io_ap_id := ''https://r.example/a'',
       io_activity_object_ap_id := Some ''https://me.example/o/p'',
       io_relates_to_outbox_object_id := Some 1\<rparr>"

definition delete_of_announce :: inbox_object where
  "delete_of_announce =
     remote_row\<lparr>io_id := 2, io_ap_type := ''Delete'', io_ap_id := ''https://r.example/d'',
       io_activity_object_ap_id := Some ''https://r.example/a'',
       io_relates_to_inbox_object_id := Some 1\<rparr>"

definition announce_db :: db where
  "announce_db =
     empty_db\<lparr>inbox := [announce_of_post, delete_of_announce], outbox := [announced_post]\<rparr>"

text \<open>A remote note with one remote reply (so its counter is 1), and the Delete of the reply.\<close>

definition parent_note :: inbox_object where
  "parent_note =
     remote_row\<lparr>io_id := 1, io_ap_id := ''https://r.example/x'', io_replies_count := 1\<rparr>"

definition reply_note :: inbox_object where
  "reply_note =
     remote_row\<lparr>io_id := 2, io_ap_id := ''https://r.example/y'',
       io_ap_object := empty_document\<lparr>ro_in_reply_to := Some ''https://r.example/x''\<rparr>\<rparr>"

definition delete_of_reply :: inbox_object where
  "delete_of_reply =
     remote_row\<lparr>io_id := 3, io_ap_type := ''Delete'', io_ap_id := ''https://r.example/d'',
       io_activity_object_ap_id := Some ''https://r.example/y'',
       io_relates_to_inbox_object_id := Some 2\<rparr>"

definition reply_db :: db where
  "reply_db = empty_db\<lparr>inbox := [parent_note, reply_note, delete_of_reply]\<rparr>"

text \<open>
  A remote note of \<open>u\<close> that \<open>v\<close> announced (an inbox row) and that the local actor liked
  (an outbox row), and the Delete of the note.
\<close>

definition remote_note :: inbox_object where
  "remote_note = remote_row\<lparr>io_id := 1, io_ap_id := ''https://r.example/p''\<rparr>"

definition inbound_announce :: inbox_object where
  "inbound_announce =
     remote_row\<lparr>io_id := 2, io_actor_id := 2, io_ap_actor_id := ''https://r.example/v'',
       io_ap_type := ''Announce'', io_ap_id := ''https://r.example/a'',
       io_activity_object_ap_id := Some ''https://r.example/p'',
       io_relates_to_inbox_object_id := Some 1\<rparr>"

definition delete_of_note :: inbox_object where
  "delete_of_note =
     remote_row\<lparr>io_id := 3, io_ap_type := ''Delete'', io_ap_id := ''https://r.example/d'',
       io_activity_object_ap_id := Some ''https://r.example/p'',
       io_relates_to_inbox_object_id := Some 1\<rparr>"

definition local_like :: outbox_object where
  "local_like =
     local_row\<lparr>oo_id := 1, oo_ap_type := ''Like'', oo_ap_id := ''https://me.example/o/l'',
       oo_activity_object_ap_id := Some ''https://r.example/p'',
       oo_relates_to_inbox_object_id := Some 1\<rparr>"

definition cascade_db :: db where
  "cascade_db =
     empty_db\<lparr>inbox := [remote_note, inbound_announce, delete_of_note], outbox := [local_like]\<rparr>"

text \<open>
  The local actor follows \<open>u\<close> (the Follow is the outbox row 1). \<open>u\<close> moves to \<open>w\<close> on
  another server, whose actor document lists \<open>u\<close> in \<open>alsoKnownAs\<close>; the actor \<open>v\<close> does
  not list \<open>u\<close>.
\<close>

definition actor_w :: actor where
  "actor_w =
     \<lparr>a_id = 3, a_ap_id = ''https://n.example/w'',
      a_ap_actor = \<lparr>ad_id = ''https://n.example/w'', ad_type = ''Person'',
                    ad_inbox = ''https://n.example/w/inbox'',
                    ad_shared_inbox = Some ''https://n.example/inbox'',
                    ad_also_known_as = [''https://r.example/u'']\<rparr>,
      a_is_blocked = False, a_is_deleted = False\<rparr>"

definition follow_of_u :: outbox_object where
  "follow_of_u =
     local_row\<lparr>oo_id := 1, oo_public_id := ''f'', oo_ap_type := ''Follow'',
       oo_ap_id := ''https://me.example/o/f'',
       oo_ap_object := follow_document example_config ''f'' ''https://r.example/u'',
       oo_visibility := DIRECT,
       oo_activity_object_ap_id := Some ''https://r.example/u'',
       oo_relates_to_actor_id := Some 1\<rparr>"

definition following_u :: following where
  "following_u =
     \<lparr>fg_id = 1, fg_actor_id = 1, fg_outbox_object_id = 1,
      fg_ap_actor_id = ''https://r.example/u''\<rparr>"

definition move_db :: db where
  "move_db =
     empty_db\<lparr>actors := [actor_u, actor_v, actor_w], outbox := [follow_of_u],
       followings := [following_u]\<rparr>"

definition move_to_w :: inbox_object where
  "move_to_w =
     remote_row\<lparr>io_id := 1, io_ap_type := ''Move'', io_ap_id := ''https://r.example/m1'',
       io_ap_object := empty_document\<lparr>ro_id := Some ''https://r.example/m1'',
         ro_type := ''Move'', ro_actor := Some ''https://r.example/u'',
         ro_object_id := Some ''https://r.example/u'',
         ro_target := Some ''https://n.example/w''\<rparr>,
       io_activity_object_ap_id := Some ''https://r.example/u''\<rparr>"

definition second_move_to_w :: inbox_object where
  "second_move_to_w =
     move_to_w\<lparr>io_id := 2, io_ap_id := ''https://r.example/m2'',
       io_ap_object := (io_ap_object move_to_w)\<lparr>ro_id := Some ''https://r.example/m2''\<rparr>\<rparr>"

definition move_to_v :: inbox_object where
  "move_to_v =
     move_to_w\<lparr>io_ap_object := (io_ap_object move_to_w)\<lparr>ro_target := Some ''https://r.example/v''\<rparr>\<rparr>"

section \<open>Lemmas on the session\<close>

lemmas instance_defs = example_config_def offline_def empty_document_def remote_row_def
  local_row_def actor_u_def actor_v_def empty_db_def

lemmas delete_defs = handle_delete_activity_def revert_side_effect_for_deleted_object_def
  revert_replies_count_def revert_like_announce_count_def delete_any_like_announce_def
  forward_delete_def in_reply_to_def oo_in_reply_to_def truthy_def update_inbox_def
  update_outbox_def has_ld_signature_def get_anybox_object_by_ap_id_def
  get_inbox_object_by_ap_id_def get_outbox_object_by_ap_id_def startswith_def
  get_replies_count_def

lemma fold_enqueue_inbox [simp]:
  "inbox (fold (\<lambda>rcp t. new_outgoing_activity t rcp a b) rs s) = inbox s"
  by (induction rs arbitrary: s) (simp_all add: new_outgoing_activity_def)

lemma fold_enqueue_outbox [simp]:
  "outbox (fold (\<lambda>rcp t. new_outgoing_activity t rcp a b) rs s) = outbox s"
  by (induction rs arbitrary: s) (simp_all add: new_outgoing_activity_def)

lemma update_outbox_inbox [simp]: "inbox (update_outbox s i f) = inbox s"
  by (simp add: update_outbox_def)

lemma update_inbox_outbox [simp]: "outbox (update_inbox s i f) = outbox s"
  by (simp add: update_inbox_def)

lemma update_inbox_map:
  "(\<And>x. g (f x) = g x) \<Longrightarrow> map g (inbox (update_inbox s i f)) = map g (inbox s)"
  by (simp add: update_inbox_def)

lemma update_outbox_map:
  "(\<And>x. g (f x) = g x) \<Longrightarrow> map g (outbox (update_outbox s i f)) = map g (outbox s)"
  by (simp add: update_outbox_def)

lemma map2_transfer:
  "map f xs = map f ys \<Longrightarrow> map g xs = map g ys
     \<Longrightarrow> map (\<lambda>r. h (f r) (g r)) xs = map (\<lambda>r. h (f r) (g r)) ys"
proof (induction xs arbitrary: ys)
  case Nil
  then show ?case by simp
next
  case (Cons x xs)
  from Cons.prems(1) obtain y zs where ys: "ys = y # zs" by (cases ys) simp_all
  from Cons.prems ys have hd: "f x = f y" "g x = g y"
    and tl: "map f xs = map f zs" "map g xs = map g zs" by simp_all
  from Cons.IH[OF tl] hd ys show ?case by simp
qed

lemma replies_step_inbox:
  "map io_is_deleted (inbox (fst (revert_replies_count cfg s x))) = map io_is_deleted (inbox s)"
  "map io_id (inbox (fst (revert_replies_count cfg s x))) = map io_id (inbox s)"
  by (simp_all add: revert_replies_count_def Let_def update_inbox_map split: option.splits anybox.splits)

lemma replies_step_outbox:
  "map oo_id (outbox (fst (revert_replies_count cfg s x))) = map oo_id (outbox s)"
  "map oo_is_deleted (outbox (fst (revert_replies_count cfg s x))) = map oo_is_deleted (outbox s)"
  "map oo_activity_object_ap_id (outbox (fst (revert_replies_count cfg s x))) = map oo_activity_object_ap_id (outbox s)"
  by (simp_all add: revert_replies_count_def Let_def update_outbox_map split: option.splits anybox.splits)

lemma counter_step_inbox [simp]: "inbox (revert_like_announce_count s x) = inbox s"
  by (simp add: revert_like_announce_count_def split: option.splits)

lemma counter_step_outbox:
  "map oo_id (outbox (revert_like_announce_count s x)) = map oo_id (outbox s)"
  "map oo_is_deleted (outbox (revert_like_announce_count s x)) = map oo_is_deleted (outbox s)"
  "map oo_activity_object_ap_id (outbox (revert_like_announce_count s x)) = map oo_activity_object_ap_id (outbox s)"
  by (simp_all add: revert_like_announce_count_def update_outbox_map split: option.splits)

lemma cascade_step_inbox [simp]: "inbox (delete_any_like_announce s x) = inbox s"
  by (simp add: delete_any_like_announce_def)

lemma forward_step [simp]:
  "inbox (forward_delete s d f) = inbox s" "outbox (forward_delete s d f) = outbox s"
  by (simp_all add: forward_delete_def Let_def)

lemma cascade_step_outbox:
  "map oo_is_deleted (outbox (delete_any_like_announce s x))
     = map (\<lambda>r. oo_is_deleted r \<or> oo_activity_object_ap_id r = Some (io_ap_id x)) (outbox s)"
  "map oo_id (outbox (delete_any_like_announce s x)) = map oo_id (outbox s)"
  by (simp_all add: delete_any_like_announce_def)

lemma mark_deleted_inbox:
  "map io_is_deleted (inbox (update_inbox s i (\<lambda>x. x\<lparr>io_is_deleted := True\<rparr>)))
     = map (\<lambda>r. io_is_deleted r \<or> io_id r = i) (inbox s)"
  by (simp add: update_inbox_def)


lemma revert_inbox:
  "map io_is_deleted (inbox (revert_side_effect_for_deleted_object cfg s d x f)) = map io_is_deleted (inbox s)"
  "map io_id (inbox (revert_side_effect_for_deleted_object cfg s d x f)) = map io_id (inbox s)"
proof -
  obtain s1 b where r: "revert_replies_count cfg s x = (s1, b)"
    by (cases "revert_replies_count cfg s x")
  have inb: "inbox (revert_side_effect_for_deleted_object cfg s d x f) = inbox s1"
    by (simp add: revert_side_effect_for_deleted_object_def Let_def r)
  show "map io_is_deleted (inbox (revert_side_effect_for_deleted_object cfg s d x f)) = map io_is_deleted (inbox s)"
    using replies_step_inbox(1)[of cfg s x] by (simp add: inb r)
  show "map io_id (inbox (revert_side_effect_for_deleted_object cfg s d x f)) = map io_id (inbox s)"
    using replies_step_inbox(2)[of cfg s x] by (simp add: inb r)
qed

lemma revert_outbox:
  "map oo_id (outbox (revert_side_effect_for_deleted_object cfg s d x f)) = map oo_id (outbox s)"
  "map oo_is_deleted (outbox (revert_side_effect_for_deleted_object cfg s d x f))
     = map (\<lambda>r. oo_is_deleted r \<or> oo_activity_object_ap_id r = Some (io_ap_id x)) (outbox s)"
proof -
  obtain s1 b where r: "revert_replies_count cfg s x = (s1, b)"
    by (cases "revert_replies_count cfg s x")
  let ?s2 = "revert_like_announce_count s1 x"
  have outb: "outbox (revert_side_effect_for_deleted_object cfg s d x f)
                = outbox (delete_any_like_announce ?s2 x)"
    by (simp add: revert_side_effect_for_deleted_object_def Let_def r)
  have s2: "map oo_id (outbox ?s2) = map oo_id (outbox s)"
    "map oo_is_deleted (outbox ?s2) = map oo_is_deleted (outbox s)"
    "map oo_activity_object_ap_id (outbox ?s2) = map oo_activity_object_ap_id (outbox s)"
    using replies_step_outbox[of cfg s x] by (simp_all add: counter_step_outbox r)
  show "map oo_id (outbox (revert_side_effect_for_deleted_object cfg s d x f)) = map oo_id (outbox s)"
    by (simp add: outb cascade_step_outbox(2) s2(1))
  show "map oo_is_deleted (outbox (revert_side_effect_for_deleted_object cfg s d x f))
     = map (\<lambda>r. oo_is_deleted r \<or> oo_activity_object_ap_id r = Some (io_ap_id x)) (outbox s)"
    using map2_transfer[where h = "\<lambda>a b. a \<or> b = Some (io_ap_id x)", OF s2(2) s2(3)]
    by (simp add: outb cascade_step_outbox(1))
qed

section \<open>Inbound Delete\<close>

text \<open>
  C2 (replies-count consistency; deleting a reply decrements the parent's counter).
  The code recomputes the parent's counter with \<open>_get_replies_count\<close> before the deleted
  reply is marked \<open>is_deleted\<close> (line 983 comes after line 977), so the count still
  includes the reply. In the instance a remote note has one reply and the counter 1;
  after the Delete of the reply the reply is marked deleted, the live count of the
  non-deleted replies is 0, and the stored counter of the note is still 1.
\<close>

theorem replies_count_after_delete_of_reply:
  "case handle_delete_activity example_config offline reply_db actor_u delete_of_reply
          (Some reply_note) None of
     Inl err \<Rightarrow> False
   | Inr s' \<Rightarrow> map io_ap_id (inbox s')
                  = [''https://r.example/x'', ''https://r.example/y'', ''https://r.example/d'']
              \<and> map io_is_deleted (inbox s') = [False, True, False]
              \<and> get_replies_count s' ''https://r.example/x'' = 0
              \<and> map io_replies_count (inbox s') = [1, 0, 0]"
  by (simp add: delete_defs instance_defs reply_db_def parent_note_def reply_note_def
      delete_of_reply_def)

text \<open>
  C3 (delete cascade), as the code has it: when an inbound Delete from the owner removes an
  inbox object, the outbox rows (the locally authored Likes and Announces) whose
  \<open>activity_object_ap_id\<close> is the deleted object's id are marked deleted, no other outbox
  row changes its flag, and in the inbox exactly the deleted object is marked: the cascade
  of lines 1140-1147 is an UPDATE of the outbox table only.
\<close>

theorem delete_cascade:
  assumes "a_ap_id from_actor = io_ap_actor_id obj"
  shows "\<exists>s'. handle_delete_activity cfg e s from_actor delete_activity (Some obj) fwd = Inr s'
     \<and> map oo_id (outbox s') = map oo_id (outbox s)
     \<and> map oo_is_deleted (outbox s')
         = map (\<lambda>r. oo_is_deleted r \<or> oo_activity_object_ap_id r = Some (io_ap_id obj)) (outbox s)
     \<and> map io_id (inbox s') = map io_id (inbox s)
     \<and> map io_is_deleted (inbox s')
         = map (\<lambda>r. io_is_deleted r \<or> io_id r = io_id obj) (inbox s)"
proof -
  let ?s1 = "revert_side_effect_for_deleted_object cfg s delete_activity obj fwd"
  let ?s' = "update_inbox ?s1 (io_id obj) (\<lambda>x. x\<lparr>io_is_deleted := True\<rparr>)"
  have res: "handle_delete_activity cfg e s from_actor delete_activity (Some obj) fwd = Inr ?s'"
    using assms by (simp add: handle_delete_activity_def Let_def)
  have ids: "map io_id (inbox ?s') = map io_id (inbox s)"
    by (simp add: update_inbox_map revert_inbox(2))
  have del: "map io_is_deleted (inbox ?s') = map (\<lambda>r. io_is_deleted r \<or> io_id r = io_id obj) (inbox s)"
    using map2_transfer[where h = "\<lambda>a b. a \<or> b = io_id obj",
            OF revert_inbox(1)[of cfg s delete_activity obj fwd]
               revert_inbox(2)[of cfg s delete_activity obj fwd]]
    by (simp add: mark_deleted_inbox)
  show ?thesis
    using res ids del revert_outbox[of cfg s delete_activity obj fwd] by simp
qed


theorem delete_cascade_witness:
  "\<exists>s'. handle_delete_activity example_config offline cascade_db actor_u delete_of_note
           (Some remote_note) None = Inr s'
        \<and> map oo_is_deleted (outbox s') = [True]
        \<and> map io_is_deleted (inbox s') = [True, False, False]"
proof -
  have owner: "a_ap_id actor_u = io_ap_actor_id remote_note"
    by (simp add: actor_u_def remote_note_def remote_row_def)
  from delete_cascade[OF owner, of example_config offline cascade_db delete_of_note None]
  obtain s' where
    res: "handle_delete_activity example_config offline cascade_db actor_u delete_of_note
            (Some remote_note) None = Inr s'"
    and out: "map oo_is_deleted (outbox s')
        = map (\<lambda>r. oo_is_deleted r \<or> oo_activity_object_ap_id r = Some (io_ap_id remote_note))
            (outbox cascade_db)"
    and inb: "map io_is_deleted (inbox s')
        = map (\<lambda>r. io_is_deleted r \<or> io_id r = io_id remote_note) (inbox cascade_db)"
    by blast
  have "map oo_is_deleted (outbox s') = [True]"
    unfolding out
    by (simp add: instance_defs cascade_db_def remote_note_def local_like_def)
  moreover have "map io_is_deleted (inbox s') = [True, False, False]"
    unfolding inb
    by (simp add: instance_defs cascade_db_def remote_note_def inbound_announce_def
        delete_of_note_def)
  ultimately show ?thesis using res by (intro exI[of _ s']) simp
qed

text \<open>
  The claim as stated (every stored activity in either store that points at the deleted
  object is marked deleted) fails: the Announce of \<open>v\<close>, an inbox row whose
  \<open>activity_object_ap_id\<close> is the id of the deleted note, is not marked.
\<close>

theorem delete_cascade_counterexample:
  "case handle_delete_activity example_config offline cascade_db actor_u delete_of_note
          (Some remote_note) None of
     Inl err \<Rightarrow> False
   | Inr s' \<Rightarrow> map io_ap_type (inbox s') = [''Note'', ''Announce'', ''Delete'']
              \<and> map io_activity_object_ap_id (inbox s')
                  = [None, Some ''https://r.example/p'', Some ''https://r.example/p'']
              \<and> map io_is_deleted (inbox s') = [True, False, False]
              \<and> map oo_is_deleted (outbox s') = [True]"
  by (simp add: delete_defs instance_defs cascade_db_def remote_note_def inbound_announce_def
      delete_of_note_def local_like_def)

text \<open>
  C4 (a deleted Announce of a local object decrements \<open>announces_count\<close>). Line 1123
  compares the type with \<open>"Annouce"\<close>, which no Announce has: in the instance the local
  post has \<open>announces_count = 1\<close> from the one Announce of \<open>u\<close>; after the Delete of that
  Announce from \<open>u\<close> the Announce is marked deleted and the counter is still 1.
\<close>

theorem announces_count_after_delete_of_announce:
  "case handle_delete_activity example_config offline announce_db actor_u delete_of_announce
          (Some announce_of_post) None of
     Inl err \<Rightarrow> False
   | Inr s' \<Rightarrow> map io_ap_type (inbox s') = [''Announce'', ''Delete'']
              \<and> map io_is_deleted (inbox s') = [True, False]
              \<and> map oo_announces_count (outbox s') = [1]"
  by (simp add: delete_defs instance_defs announce_db_def announced_post_def
      announce_of_post_def delete_of_announce_def)

section \<open>Outbound Undo and Follow\<close>

lemma fresh_id_pos [simp]: "fresh_id ids \<noteq> 0" "0 < fresh_id ids"
  by (simp_all add: fresh_id_def)

lemma save_outbox_object_result:
  "save_outbox_object e s pid raw a b c = (ob, s1) \<Longrightarrow>
     s1 = s\<lparr>outbox := outbox s @ [ob]\<rparr> \<and> oo_ap_type ob = ro_type raw
       \<and> oo_id ob = fresh_id (map oo_id (outbox s))"
  by (auto simp: save_outbox_object_def Let_def)

lemma find_filter_neg: "find P (filter (\<lambda>x. \<not> P x) xs) = None"
  by (simp add: find_None_iff)

lemma find_holds: "find P xs = Some x \<Longrightarrow> P x"
  by (auto simp: find_Some_iff)

lemma fetch_actor_known:
  "find (\<lambda>a. a_ap_id a = i) (actors s) = Some a \<Longrightarrow> fetch_actor e s i b = (Inr a, s)"
  by (simp add: fetch_actor_def)

lemma send_undo_follow:
  assumes uniq: "get_outbox_object_by_ap_id s (oo_ap_id fo) = Some fo"
      and kind: "oo_ap_type fo = ''Follow''"
      and obj: "oo_activity_object_ap_id fo = Some old" "old \<noteq> []"
      and known: "find (\<lambda>a. a_ap_id a = old) (actors s) = Some old_actor"
  shows "\<exists>s1. send_undo_inner cfg e undo_id s (oo_ap_id fo) = (Inr (), s1)
      \<and> actors s1 = actors s
      \<and> followings s1 = filter (\<lambda>f. fg_ap_actor_id f \<noteq> old) (followings s)
      \<and> notifications s1 = notifications s
      \<and> map oo_ap_type (outbox s1) = map oo_ap_type (outbox s) @ [''Undo'']
      \<and> map og_recipient (outgoing_activities s1)
           = map og_recipient (outgoing_activities s) @ [inbox_url old_actor]"
proof -
  have id: "a_ap_id old_actor = old" using find_holds[OF known] .
  obtain ob s1 where saved:
    "save_outbox_object e s undo_id (undo_document cfg undo_id (oo_ap_object fo))
       None (Some (oo_id fo)) None = (ob, s1)"
    by (cases "save_outbox_object e s undo_id (undo_document cfg undo_id (oo_ap_object fo))
                 None (Some (oo_id fo)) None")
  let ?s2 = "update_outbox s1 (oo_id fo) (\<lambda>x. x\<lparr>oo_undone_by_outbox_object_id := Some (oo_id ob)\<rparr>)"
  from save_outbox_object_result[OF saved]
  have s1: "s1 = s\<lparr>outbox := outbox s @ [ob]\<rparr>" and ob: "oo_ap_type ob = ''Undo''"
    and oid: "oo_id ob \<noteq> 0"
    by (simp_all add: undo_document_def)
  have a2: "actors ?s2 = actors s"
    by (simp add: s1 update_outbox_def)
  have f: "fetch_actor e ?s2 old True = (Inr old_actor, ?s2)"
    by (rule fetch_actor_known) (simp add: a2 known)
  have types: "map oo_ap_type (outbox ?s2) = map oo_ap_type (outbox s) @ [''Undo'']"
    by (simp add: s1 ob update_outbox_def comp_def cong: map_cong)
  have res: "send_undo_inner cfg e undo_id s (oo_ap_id fo)
      = (Inr (), (new_outgoing_activity ?s2 (inbox_url old_actor) (Some (oo_id ob)) None)
           \<lparr>followings := filter (\<lambda>f. fg_ap_actor_id f \<noteq> a_ap_id old_actor)
              (followings (new_outgoing_activity ?s2 (inbox_url old_actor) (Some (oo_id ob)) None))\<rparr>)"
    using uniq kind obj oid f
    by (simp add: send_undo_inner_def truthy_def Let_def saved)
  show ?thesis
    unfolding res
    by (intro exI conjI, rule refl)
       (simp_all add: id a2 types new_outgoing_activity_def,
        simp_all add: s1 update_outbox_def)
qed

lemma send_follow_known:
  assumes known: "find (\<lambda>a. a_ap_id a = new) (actors s) = Some new_actor"
  shows "\<exists>s1. send_follow_inner cfg e follow_id s new = (Inr (), s1)
      \<and> actors s1 = actors s
      \<and> followings s1 = followings s
      \<and> notifications s1 = notifications s
      \<and> map oo_ap_type (outbox s1) = map oo_ap_type (outbox s) @ [''Follow'']
      \<and> map og_recipient (outgoing_activities s1)
           = map og_recipient (outgoing_activities s) @ [inbox_url new_actor]"
proof -
  obtain ob s1 where saved:
    "save_outbox_object e s follow_id (follow_document cfg follow_id new)
       None None (Some (a_id new_actor)) = (ob, s1)"
    by (cases "save_outbox_object e s follow_id (follow_document cfg follow_id new)
                 None None (Some (a_id new_actor))")
  from save_outbox_object_result[OF saved]
  have s1: "s1 = s\<lparr>outbox := outbox s @ [ob]\<rparr>" and ob: "oo_ap_type ob = ''Follow''"
    and oid: "oo_id ob \<noteq> 0"
    by (simp_all add: follow_document_def)
  have res: "send_follow_inner cfg e follow_id s new
      = (Inr (), new_outgoing_activity s1 (inbox_url new_actor) (Some (oo_id ob)) None)"
    using fetch_actor_known[OF known, of e True] oid
    by (simp add: send_follow_inner_def saved)
  show ?thesis
    unfolding res
    by (intro exI conjI, rule refl) (simp_all add: new_outgoing_activity_def s1 ob)
qed


text \<open>
  C9 (outbound Undo rejects unsupported targets before any persistence): for an outbox
  object whose type is not Follow, Like or Announce, \<open>_send_undo\<close> raises the ValueError of
  line 268 with the session as it was (no new outbox row, no \<open>undone_by_outbox_object_id\<close>
  mark, no delivery work item), and \<open>send_undo\<close> raises it without committing.
\<close>

theorem send_undo_unsupported_type:
  assumes "get_outbox_object_by_ap_id s ap_object_id = Some x"
      and "oo_ap_type x \<notin> {''Follow'', ''Like'', ''Announce''}"
  shows "send_undo_inner cfg e undo_id s ap_object_id
           = (Inl (ValueError (''Cannot build Undo for '' @ oo_ap_type x @ '' activity'')), s)
       \<and> send_undo cfg e undo_id s ap_object_id
           = Inl (ValueError (''Cannot build Undo for '' @ oo_ap_type x @ '' activity''))"
  using assms by (simp add: send_undo_def send_undo_inner_def)

theorem send_undo_unsupported_type_witness:
  "send_undo_inner example_config offline ''u1'' announce_db ''https://me.example/o/p''
     = (Inl (ValueError ''Cannot build Undo for Note activity''), announce_db)
   \<and> send_undo example_config offline ''u1'' announce_db ''https://me.example/o/p''
     = Inl (ValueError ''Cannot build Undo for Note activity'')"
proof -
  have a: "get_outbox_object_by_ap_id announce_db ''https://me.example/o/p'' = Some announced_post"
    by (simp add: get_outbox_object_by_ap_id_def announce_db_def announced_post_def instance_defs)
  have b: "oo_ap_type announced_post \<notin> {''Follow'', ''Like'', ''Announce''}"
    by (simp add: announced_post_def local_row_def)
  have c: "oo_ap_type announced_post = ''Note''"
    by (simp add: announced_post_def local_row_def)
  from send_undo_unsupported_type[OF a b, of example_config offline "''u1''"] show ?thesis
    by (simp add: c)
qed

end
